theory Spec2Isabelle
  imports
    Complex_Main
    "HOL-Library.Finite_Map"
    "HOL-Library.AList"
    "HOL-Library.Char_ord"
    "HOL-Library.List_Lexorder"
begin

section \<open>nsls2/fitting/base/element.py: elements and their x-ray quantities\<close>

text \<open>
  The module has three classes: \<^verbatim>\<open>XrayLibWrap\<close> (a read-only \<^verbatim>\<open>Mapping\<close> from a
  line or shell name to a quantity computed by xraylib), its subclass
  \<^verbatim>\<open>XrayLibWrap_Energy\<close> (the same with an incident energy) and \<^verbatim>\<open>Element\<close>.
  The two tables \<^verbatim>\<open>XRAYLIB_MAP\<close> and \<^verbatim>\<open>OTHER_VAL\<close> are imported from
  \<^verbatim>\<open>nsls2.fitting.base.element_data\<close>; every function below takes them as arguments.

  Python floats are modelled as \<^typ>\<open>real\<close> (no rounding, no NaN), Python ints as
  \<^typ>\<open>int\<close>, and \<^verbatim>\<open>str\<close> as \<^typ>\<open>string\<close>, ordered lexicographically by character
  code as Python orders strings.
\<close>

subsection \<open>Exceptions\<close>

text \<open>
  \<^verbatim>\<open>KeyError\<close> is what a failed dict subscript raises, \<^verbatim>\<open>TypeError\<close> what calling a
  function with the wrong number of arguments raises; \<open>QuantityUnavailable\<close> stands for
  any exception the xraylib function itself raises, which the module lets through.
\<close>

datatype error = KeyError | TypeError | QuantityUnavailable

subsection \<open>\<^verbatim>\<open>str.lower\<close> and \<^verbatim>\<open>str.upper\<close>\<close>

text \<open>
  The case mappings on the ASCII letters; every other character is left as it is.
\<close>

definition lower_char :: "char \<Rightarrow> char" where
  "lower_char c =
     (let n = of_char c :: nat in if 65 \<le> n \<and> n \<le> 90 then char_of (n + 32) else c)"

definition upper_char :: "char \<Rightarrow> char" where
  "upper_char c =
     (let n = of_char c :: nat in if 97 \<le> n \<and> n \<le> 122 then char_of (n - 32) else c)"

definition lower :: "string \<Rightarrow> string" where
  "lower s = map lower_char s"

definition upper :: "string \<Rightarrow> string" where
  "upper s = map upper_char s"

subsection \<open>The tables of \<^verbatim>\<open>element_data\<close>\<close>

text \<open>
  \<^verbatim>\<open>XRAYLIB_MAP[info_type]\<close> is a pair of a dict from names to xraylib codes and an
  xraylib function. \<^verbatim>\<open>XrayLibWrap\<close> calls the function with two arguments,
  \<^verbatim>\<open>XrayLibWrap_Energy\<close> with three, so a function is of one arity or the other.
\<close>

datatype xfunc =
    Func2 "int \<Rightarrow> int \<Rightarrow> error + real"
  | Func3 "int \<Rightarrow> int \<Rightarrow> real \<Rightarrow> error + real"

type_synonym xraylib_map = "string \<rightharpoonup> ((string, int) fmap \<times> xfunc)"

text \<open>\<^verbatim>\<open>f(a, b)\<close> and \<^verbatim>\<open>f(a, b, c)\<close>.\<close>

fun call2 :: "xfunc \<Rightarrow> int \<Rightarrow> int \<Rightarrow> error + real" where
  "call2 (Func2 f) element code = f element code"
| "call2 (Func3 f) element code = Inl TypeError"

fun call3 :: "xfunc \<Rightarrow> int \<Rightarrow> int \<Rightarrow> real \<Rightarrow> error + real" where
  "call3 (Func3 f) element code energy = f element code energy"
| "call3 (Func2 f) element code energy = Inl TypeError"

text \<open>
  \<^verbatim>\<open>OTHER_VAL\<close> is subscripted with a string or with an int; the value is a dict with the
  fields \<^verbatim>\<open>'sym'\<close>, \<^verbatim>\<open>'Z'\<close>, \<^verbatim>\<open>'mass'\<close> and \<^verbatim>\<open>'rho'\<close>.
\<close>

datatype ident = Sym string | Num int

record elem_dict =
  ed_sym :: string
  ed_Z :: int
  ed_mass :: real
  ed_rho :: real

type_synonym other_val = "ident \<rightharpoonup> elem_dict"

subsection \<open>\<^verbatim>\<open>class XrayLibWrap(Mapping)\<close>\<close>

record XrayLibWrap =
  xl_element :: int
  info_type :: string
  xl_map :: "(string, int) fmap"
  xl_func :: xfunc
  xl_keys :: "string list"

text \<open>\<^verbatim>\<open>sorted(list(six.iterkeys(d)))\<close>: the keys of a dict, in increasing order.\<close>

definition sorted_iterkeys :: "(string, int) fmap \<Rightarrow> string list" where
  "sorted_iterkeys d = sorted_list_of_fset (fmdom d)"

text \<open>\<^verbatim>\<open>__init__(self, element, info_type)\<close>\<close>

definition XrayLibWrap_init :: "xraylib_map \<Rightarrow> int \<Rightarrow> string \<Rightarrow> error + XrayLibWrap" where
  "XrayLibWrap_init XRAYLIB_MAP element it =
     (case XRAYLIB_MAP it of
        None \<Rightarrow> Inl KeyError
      | Some (m, f) \<Rightarrow>
          Inr \<lparr>xl_element = element, info_type = it, xl_map = m, xl_func = f,
               xl_keys = sorted_iterkeys m\<rparr>)"

text \<open>\<^verbatim>\<open>__getitem__(self, key)\<close>\<close>

definition XrayLibWrap_getitem :: "'a XrayLibWrap_scheme \<Rightarrow> string \<Rightarrow> error + real" where
  "XrayLibWrap_getitem self key =
     (case fmlookup (xl_map self) (lower key) of
        None \<Rightarrow> Inl KeyError
      | Some code \<Rightarrow> call2 (xl_func self) (xl_element self) code)"

text \<open>\<^verbatim>\<open>__iter__(self)\<close> and \<^verbatim>\<open>__len__(self)\<close>, which the subclass inherits.\<close>

definition XrayLibWrap_iter :: "'a XrayLibWrap_scheme \<Rightarrow> string list" where
  "XrayLibWrap_iter self = xl_keys self"

definition XrayLibWrap_len :: "'a XrayLibWrap_scheme \<Rightarrow> nat" where
  "XrayLibWrap_len self = length (xl_keys self)"

text \<open>
  \<^verbatim>\<open>Mapping.items\<close>: the pairs \<^verbatim>\<open>(key, self[key])\<close> for the keys that \<^verbatim>\<open>__iter__\<close>
  yields, in that order; the first subscript that raises ends it. The subscript is the
  class's own \<^verbatim>\<open>__getitem__\<close>, passed here as \<open>getitem\<close>.
\<close>

fun Mapping_items :: "(string \<Rightarrow> error + real) \<Rightarrow> string list \<Rightarrow> error + (string \<times> real) list" where
  "Mapping_items getitem [] = Inr []"
| "Mapping_items getitem (key # keys) =
     (case getitem key of
        Inl e \<Rightarrow> Inl e
      | Inr v \<Rightarrow>
          (case Mapping_items getitem keys of
             Inl e \<Rightarrow> Inl e
           | Inr rest \<Rightarrow> Inr ((key, v) # rest)))"

text \<open>The property \<^verbatim>\<open>all\<close>: \<^verbatim>\<open>list(self.items())\<close>.\<close>

definition XrayLibWrap_all :: "'a XrayLibWrap_scheme \<Rightarrow> error + (string \<times> real) list" where
  "XrayLibWrap_all self = Mapping_items (XrayLibWrap_getitem self) (XrayLibWrap_iter self)"

subsection \<open>\<^verbatim>\<open>class XrayLibWrap_Energy(XrayLibWrap)\<close>\<close>

record XrayLibWrap_Energy = XrayLibWrap +
  incident_energy :: real

text \<open>\<^verbatim>\<open>__init__(self, element, info_type, incident_energy)\<close>\<close>

definition XrayLibWrap_Energy_init ::
  "xraylib_map \<Rightarrow> int \<Rightarrow> string \<Rightarrow> real \<Rightarrow> error + XrayLibWrap_Energy" where
  "XrayLibWrap_Energy_init XRAYLIB_MAP element it energy =
     (case XrayLibWrap_init XRAYLIB_MAP element it of
        Inl e \<Rightarrow> Inl e
      | Inr base \<Rightarrow>
          Inr \<lparr>xl_element = xl_element base, info_type = info_type base,
               xl_map = xl_map base, xl_func = xl_func base, xl_keys = xl_keys base,
               incident_energy = energy\<rparr>)"

text \<open>The setter of the property \<^verbatim>\<open>incident_energy\<close>.\<close>

definition set_incident_energy :: "XrayLibWrap_Energy \<Rightarrow> real \<Rightarrow> XrayLibWrap_Energy" where
  "set_incident_energy self val = self\<lparr>incident_energy := val\<rparr>"

text \<open>\<^verbatim>\<open>__getitem__(self, key)\<close> of the subclass.\<close>

definition XrayLibWrap_Energy_getitem :: "XrayLibWrap_Energy \<Rightarrow> string \<Rightarrow> error + real" where
  "XrayLibWrap_Energy_getitem self key =
     (case fmlookup (xl_map self) (lower key) of
        None \<Rightarrow> Inl KeyError
      | Some code \<Rightarrow> call3 (xl_func self) (xl_element self) code (incident_energy self))"

text \<open>The inherited \<^verbatim>\<open>all\<close>, whose subscripts are those of the subclass.\<close>

definition XrayLibWrap_Energy_all :: "XrayLibWrap_Energy \<Rightarrow> error + (string \<times> real) list" where
  "XrayLibWrap_Energy_all self =
     Mapping_items (XrayLibWrap_Energy_getitem self) (XrayLibWrap_iter self)"

subsection \<open>\<^verbatim>\<open>class Element\<close>\<close>

record Element =
  name :: string
  Z :: int
  mass :: real
  density :: real
  emission_line :: XrayLibWrap
  bind_energy :: XrayLibWrap
  jump_factor :: XrayLibWrap
  fluor_yield :: XrayLibWrap

text \<open>
  \<^verbatim>\<open>__init__(self, element)\<close>: a string is lower-cased, then \<^verbatim>\<open>OTHER_VAL\<close> is
  subscripted, then the four lookups are built in the order of the source.
\<close>

definition Element_init :: "xraylib_map \<Rightarrow> other_val \<Rightarrow> ident \<Rightarrow> error + Element" where
  "Element_init XRAYLIB_MAP OTHER_VAL element =
     (let element = (case element of Sym s \<Rightarrow> Sym (lower s) | Num n \<Rightarrow> Num n) in
      case OTHER_VAL element of
        None \<Rightarrow> Inl KeyError
      | Some elem_dict \<Rightarrow>
          (case XrayLibWrap_init XRAYLIB_MAP (ed_Z elem_dict) ''lines'' of
             Inl e \<Rightarrow> Inl e
           | Inr el \<Rightarrow>
          (case XrayLibWrap_init XRAYLIB_MAP (ed_Z elem_dict) ''binding_e'' of
             Inl e \<Rightarrow> Inl e
           | Inr be \<Rightarrow>
          (case XrayLibWrap_init XRAYLIB_MAP (ed_Z elem_dict) ''jump'' of
             Inl e \<Rightarrow> Inl e
           | Inr jf \<Rightarrow>
          (case XrayLibWrap_init XRAYLIB_MAP (ed_Z elem_dict) ''yield'' of
             Inl e \<Rightarrow> Inl e
           | Inr fy \<Rightarrow>
               Inr \<lparr>name = ed_sym elem_dict, Z = ed_Z elem_dict, mass = ed_mass elem_dict,
                    density = ed_rho elem_dict, emission_line = el, bind_energy = be,
                    jump_factor = jf, fluor_yield = fy\<rparr>)))))"

text \<open>The property \<^verbatim>\<open>cs\<close>, applied to an incident energy: a new lookup at each call.\<close>

definition Element_cs :: "xraylib_map \<Rightarrow> Element \<Rightarrow> real \<Rightarrow> error + XrayLibWrap_Energy" where
  "Element_cs XRAYLIB_MAP self energy =
     XrayLibWrap_Energy_init XRAYLIB_MAP (Z self) ''cs'' energy"

text \<open>
  \<^verbatim>\<open>__eq__\<close> and \<^verbatim>\<open>__lt__\<close>, and the three comparisons that the decorator
  \<^verbatim>\<open>functools.total_ordering\<close> derives from them.
\<close>

definition Element_eq :: "Element \<Rightarrow> Element \<Rightarrow> bool" where
  "Element_eq self other = (Z self = Z other)"

definition Element_lt :: "Element \<Rightarrow> Element \<Rightarrow> bool" where
  "Element_lt self other = (Z self < Z other)"

definition Element_le :: "Element \<Rightarrow> Element \<Rightarrow> bool" where
  "Element_le self other = (Element_lt self other \<or> Element_eq self other)"

definition Element_gt :: "Element \<Rightarrow> Element \<Rightarrow> bool" where
  "Element_gt self other = (\<not> (Element_lt self other \<or> Element_eq self other))"

definition Element_ge :: "Element \<Rightarrow> Element \<Rightarrow> bool" where
  "Element_ge self other = (\<not> Element_lt self other)"

text \<open>
  \<^verbatim>\<open>out_dict[k] = v\<close>. The dict is kept as the list of its items, a new key at the
  end; what the dict holds is what \<open>map_of\<close> reads from the list. The order of the
  list is not the order in which Python iterates a plain dict (see \<open>dict_iteration\<close>).
\<close>

definition dict_setitem :: "(string \<times> real) list \<Rightarrow> string \<Rightarrow> real \<Rightarrow> (string \<times> real) list" where
  "dict_setitem d k v = AList.update k v d"

text \<open>
  The loop of \<^verbatim>\<open>line_near\<close> over the remaining keys of \<^verbatim>\<open>self.emission_line\<close>.
  \<^verbatim>\<open>six.iteritems\<close> computes \<^verbatim>\<open>v = self.emission_line[k]\<close> when it yields the pair, so
  before the body builds \<^verbatim>\<open>self.cs(incident_energy)\<close> and subscripts it.
\<close>

fun line_near_loop ::
  "xraylib_map \<Rightarrow> Element \<Rightarrow> real \<Rightarrow> real \<Rightarrow> real \<Rightarrow> string list \<Rightarrow> (string \<times> real) list
     \<Rightarrow> error + (string \<times> real) list" where
  "line_near_loop XRAYLIB_MAP self energy delta_e ie [] out_dict = Inr out_dict"
| "line_near_loop XRAYLIB_MAP self energy delta_e ie (k # ks) out_dict =
     (case XrayLibWrap_getitem (emission_line self) k of
        Inl e \<Rightarrow> Inl e
      | Inr v \<Rightarrow>
          (case Element_cs XRAYLIB_MAP self ie of
             Inl e \<Rightarrow> Inl e
           | Inr c \<Rightarrow>
               (case XrayLibWrap_Energy_getitem c k of
                  Inl e \<Rightarrow> Inl e
                | Inr x \<Rightarrow>
                    if x = 0 then line_near_loop XRAYLIB_MAP self energy delta_e ie ks out_dict
                    else if \<bar>v - energy\<bar> < delta_e
                    then line_near_loop XRAYLIB_MAP self energy delta_e ie ks
                           (dict_setitem out_dict k v)
                    else line_near_loop XRAYLIB_MAP self energy delta_e ie ks out_dict)))"

text \<open>\<^verbatim>\<open>line_near(self, energy, delta_e, incident_energy)\<close>\<close>

definition line_near ::
  "xraylib_map \<Rightarrow> Element \<Rightarrow> real \<Rightarrow> real \<Rightarrow> real \<Rightarrow> error + (string \<times> real) list" where
  "line_near XRAYLIB_MAP self energy delta_e ie =
     line_near_loop XRAYLIB_MAP self energy delta_e ie
       (XrayLibWrap_iter (emission_line self)) []"




subsection \<open>Objects and references\<close>

text \<open>
  An \<^verbatim>\<open>XrayLibWrap_Energy\<close> is the only object of the module with a setter. To speak of
  two such objects and of an assignment to one of them, the objects live in a store and
  are named by their index in it; a constructor call appends a new object.
\<close>

type_synonym store = "XrayLibWrap_Energy list"

definition new_cs :: "xraylib_map \<Rightarrow> Element \<Rightarrow> real \<Rightarrow> store \<Rightarrow> error + (nat \<times> store)" where
  "new_cs XRAYLIB_MAP self energy h =
     (case Element_cs XRAYLIB_MAP self energy of
        Inl e \<Rightarrow> Inl e
      | Inr c \<Rightarrow> Inr (length h, h @ [c]))"

text \<open>\<^verbatim>\<open>r.incident_energy = val\<close> and \<^verbatim>\<open>r[key]\<close> for a reference \<open>r\<close>.\<close>

definition assign_incident_energy :: "store \<Rightarrow> nat \<Rightarrow> real \<Rightarrow> store" where
  "assign_incident_energy h r val =
     (if r < length h then h[r := set_incident_energy (h ! r) val] else h)"

definition subscript :: "store \<Rightarrow> nat \<Rightarrow> string \<Rightarrow> (error + real) option" where
  "subscript h r key =
     (if r < length h then Some (XrayLibWrap_Energy_getitem (h ! r) key) else None)"

subsection \<open>A small instance of the tables\<close>

text \<open>
  Three lines and two shells, with functions that are defined on every element, to run
  the operations on. The codes are xraylib's \<^verbatim>\<open>KL3_LINE\<close>, \<^verbatim>\<open>KM3_LINE\<close>,
  \<^verbatim>\<open>L3M5_LINE\<close>, \<^verbatim>\<open>K_SHELL\<close> and \<^verbatim>\<open>L1_SHELL\<close>. The K lines have a zero cross
  section below the K edge.
\<close>

definition example_lines :: "(string, int) fmap" where
  "example_lines = fmap_of_list [(''kb1'', - 6), (''ka1'', - 3), (''la1'', - 90)]"

definition example_shells :: "(string, int) fmap" where
  "example_shells = fmap_of_list [(''l1'', 1), (''k'', 0)]"

definition example_LineEnergy :: "int \<Rightarrow> int \<Rightarrow> error + real" where
  "example_LineEnergy z code =
     (if code = - 3 then Inr (real_of_int z / 4)
      else if code = - 6 then Inr (real_of_int z / 3)
      else if code = - 90 then Inr (real_of_int z / 30)
      else Inl QuantityUnavailable)"

definition example_EdgeEnergy :: "int \<Rightarrow> int \<Rightarrow> error + real" where
  "example_EdgeEnergy z code =
     (if code = 0 then Inr (real_of_int z / 3)
      else if code = 1 then Inr (real_of_int z / 25)
      else Inl QuantityUnavailable)"

definition example_CS_FluorLine :: "int \<Rightarrow> int \<Rightarrow> real \<Rightarrow> error + real" where
  "example_CS_FluorLine z code energy =
     (if code = - 90 then Inr 5
      else if code = - 3 \<or> code = - 6
      then (if energy < real_of_int z / 3 then Inr 0 else Inr 30)
      else Inl QuantityUnavailable)"

definition example_XRAYLIB_MAP :: xraylib_map where
  "example_XRAYLIB_MAP =
     [''lines'' \<mapsto> (example_lines, Func2 example_LineEnergy),
      ''cs'' \<mapsto> (example_lines, Func3 example_CS_FluorLine),
      ''binding_e'' \<mapsto> (example_shells, Func2 example_EdgeEnergy),
      ''jump'' \<mapsto> (example_shells, Func2 example_EdgeEnergy),
      ''yield'' \<mapsto> (example_shells, Func2 example_EdgeEnergy)]"

definition example_zn :: elem_dict where
  "example_zn = \<lparr>ed_sym = ''Zn'', ed_Z = 30, ed_mass = 65.37, ed_rho = 7.14\<rparr>"

definition example_fe :: elem_dict where
  "example_fe = \<lparr>ed_sym = ''Fe'', ed_Z = 26, ed_mass = 55.847, ed_rho = 7.86\<rparr>"

definition example_OTHER_VAL :: other_val where
  "example_OTHER_VAL =
     [Sym ''zn'' \<mapsto> example_zn, Num 30 \<mapsto> example_zn,
      Sym ''fe'' \<mapsto> example_fe, Num 26 \<mapsto> example_fe]"

definition example_XrayLibWrap :: "int \<Rightarrow> (string, int) fmap \<Rightarrow> xfunc \<Rightarrow> string \<Rightarrow> XrayLibWrap" where
  "example_XrayLibWrap z m f it =
     \<lparr>xl_element = z, info_type = it, xl_map = m, xl_func = f, xl_keys = sorted_iterkeys m\<rparr>"

definition example_Element :: "elem_dict \<Rightarrow> Element" where
  "example_Element d =
     \<lparr>name = ed_sym d, Z = ed_Z d, mass = ed_mass d, density = ed_rho d,
      emission_line = example_XrayLibWrap (ed_Z d) example_lines (Func2 example_LineEnergy) ''lines'',
      bind_energy = example_XrayLibWrap (ed_Z d) example_shells (Func2 example_EdgeEnergy) ''binding_e'',
      jump_factor = example_XrayLibWrap (ed_Z d) example_shells (Func2 example_EdgeEnergy) ''jump'',
      fluor_yield = example_XrayLibWrap (ed_Z d) example_shells (Func2 example_EdgeEnergy) ''yield''\<rparr>"

definition example_cs :: "int \<Rightarrow> real \<Rightarrow> XrayLibWrap_Energy" where
  "example_cs z energy =
     \<lparr>xl_element = z, info_type = ''cs'', xl_map = example_lines,
      xl_func = Func3 example_CS_FluorLine, xl_keys = sorted_iterkeys example_lines,
      incident_energy = energy\<rparr>"

section \<open>Proofs\<close>

subsection \<open>Case mapping\<close>

lemma lower_upper_char: "lower_char (upper_char c) = lower_char c"
proof (cases "97 \<le> (of_char c :: nat) \<and> (of_char c :: nat) \<le> 122")
  case True
  let ?n = "of_char c :: nat"
  from True have up: "upper_char c = char_of (?n - 32)"
    by (simp add: upper_char_def)
  from True have m: "(?n - 32) mod 256 = ?n - 32"
    by (intro mod_less) arith
  from True have rng: "65 \<le> ?n - 32 \<and> ?n - 32 \<le> 90" and inv: "?n - 32 + 32 = ?n"
    by arith+
  have "lower_char (char_of (?n - 32)) = c"
    by (simp add: lower_char_def Let_def m rng inv)
  moreover from True have "lower_char c = c"
    by (simp add: lower_char_def)
  ultimately show ?thesis
    using up by simp
next
  case False
  then have "upper_char c = c"
    by (auto simp: upper_char_def Let_def)
  then show ?thesis
    by simp
qed

lemma lower_lower_char: "lower_char (lower_char c) = lower_char c"
proof (cases "65 \<le> (of_char c :: nat) \<and> (of_char c :: nat) \<le> 90")
  case True
  let ?n = "of_char c :: nat"
  from True have m: "(?n + 32) mod 256 = ?n + 32"
    by (intro mod_less) arith
  from True show ?thesis
    by (simp add: lower_char_def Let_def m)
next
  case False
  then show ?thesis
    by (auto simp: lower_char_def Let_def)
qed

lemma lower_upper: "lower (upper s) = lower s"
  by (simp add: lower_def upper_def lower_upper_char)

lemma lower_lower: "lower (lower s) = lower s"
  by (simp add: lower_def lower_lower_char)

subsection \<open>The sorted keys of a dict\<close>

lemma set_sorted_iterkeys: "set (sorted_iterkeys d) = fset (fmdom d)"
  by (simp add: sorted_iterkeys_def)

lemma sorted_sorted_iterkeys: "sorted (sorted_iterkeys d)"
  by (simp add: sorted_iterkeys_def sorted_list_of_fset.rep_eq)

lemma distinct_sorted_iterkeys: "distinct (sorted_iterkeys d)"
  by (simp add: sorted_iterkeys_def sorted_list_of_fset.rep_eq)

lemma sorted_iterkeys_of_list: "sorted_iterkeys (fmap_of_list xs) = sort (remdups (map fst xs))"
  using sorted_list_of_set_sort_remdups [of "map fst xs"]
  by (simp add: sorted_iterkeys_def sorted_list_of_fset.rep_eq fset_of_list.rep_eq)

lemma not_in_sorted_iterkeys: "k \<notin> set (sorted_iterkeys d) \<Longrightarrow> fmlookup d k = None"
  by (simp add: set_sorted_iterkeys fmdom_notD)

lemma XrayLibWrap_init_Inr:
  assumes "XrayLibWrap_init reg z t = Inr w"
  shows "reg t = Some (xl_map w, xl_func w)" and "xl_keys w = sorted_iterkeys (xl_map w)"
    and "xl_element w = z" and "info_type w = t"
  using assms by (auto simp: XrayLibWrap_init_def split: option.splits)

lemma XrayLibWrap_Energy_init_Inr:
  assumes "XrayLibWrap_Energy_init reg z t e = Inr w"
  shows "reg t = Some (xl_map w, xl_func w)" and "xl_keys w = sorted_iterkeys (xl_map w)"
    and "xl_element w = z" and "info_type w = t" and "incident_energy w = e"
  using assms
  by (auto simp: XrayLibWrap_Energy_init_def XrayLibWrap_init_def split: option.splits)

subsection \<open>\<^verbatim>\<open>Mapping.items\<close>\<close>

lemma Mapping_items_returns:
  "\<forall>k\<in>set ks. \<exists>v. g k = Inr v \<Longrightarrow> \<exists>ps. Mapping_items g ks = Inr ps"
  by (induction ks) auto

lemma Mapping_items_Inr:
  "Mapping_items g ks = Inr ps \<Longrightarrow>
     map fst ps = ks \<and> (\<forall>i<length ks. g (ks ! i) = Inr (snd (ps ! i)))"
proof (induction ks arbitrary: ps)
  case Nil
  then show ?case by simp
next
  case (Cons k ks)
  from Cons.prems obtain v rest where v: "g k = Inr v"
    and rest: "Mapping_items g ks = Inr rest" and ps: "ps = (k, v) # rest"
    by (auto split: sum.splits)
  from Cons.IH [OF rest] have ih: "map fst rest = ks"
    "\<forall>i<length ks. g (ks ! i) = Inr (snd (rest ! i))" by auto
  show ?case
  proof (intro conjI allI impI)
    show "map fst ps = k # ks" using ps ih(1) by simp
  next
    fix i assume "i < length (k # ks)"
    then show "g ((k # ks) ! i) = Inr (snd (ps ! i))"
      using v ih(2) ps by (cases i) auto
  qed
qed

subsection \<open>Evaluating the instance\<close>

lemma example_keys:
  "sorted_iterkeys example_lines = [''ka1'', ''kb1'', ''la1'']"
  "sorted_iterkeys example_shells = [''k'', ''l1'']"
  unfolding example_lines_def example_shells_def sorted_iterkeys_of_list by simp_all

lemma example_lookup:
  "fmlookup example_lines ''ka1'' = Some (- 3)"
  "fmlookup example_lines ''kb1'' = Some (- 6)"
  "fmlookup example_lines ''la1'' = Some (- 90)"
  "fmlookup example_lines ''kz9'' = None"
  by (simp_all add: example_lines_def)

lemma example_lower:
  "lower ''ka1'' = ''ka1''" "lower ''kb1'' = ''kb1''" "lower ''la1'' = ''la1''"
  "lower ''KA1'' = ''ka1''" "lower ''Kz9'' = ''kz9''" "upper ''ka1'' = ''KA1''"
  "lower ''zn'' = ''zn''" "lower ''Zn'' = ''zn''" "lower ''ZN'' = ''zn''" "upper ''zn'' = ''ZN''"
  by code_simp+

lemmas example_defs =
  example_XRAYLIB_MAP_def example_OTHER_VAL_def example_Element_def example_XrayLibWrap_def
  example_cs_def example_zn_def example_fe_def example_LineEnergy_def example_EdgeEnergy_def
  example_CS_FluorLine_def

lemma example_init:
  "XrayLibWrap_init example_XRAYLIB_MAP z ''lines'' =
     Inr (example_XrayLibWrap z example_lines (Func2 example_LineEnergy) ''lines'')"
  "XrayLibWrap_Energy_init example_XRAYLIB_MAP z ''cs'' e = Inr (example_cs z e)"
  by (simp_all add: XrayLibWrap_Energy_init_def XrayLibWrap_init_def example_defs)

lemma example_getitem:
  "XrayLibWrap_getitem (example_XrayLibWrap 30 example_lines (Func2 example_LineEnergy) t) ''ka1'' = Inr 7.5"
  "XrayLibWrap_getitem (example_XrayLibWrap 30 example_lines (Func2 example_LineEnergy) t) ''kb1'' = Inr 10"
  "XrayLibWrap_getitem (example_XrayLibWrap 30 example_lines (Func2 example_LineEnergy) t) ''la1'' = Inr 1"
  "XrayLibWrap_getitem (example_XrayLibWrap 30 example_lines (Func2 example_LineEnergy) t) ''KA1'' = Inr 7.5"
  by (simp_all add: XrayLibWrap_getitem_def example_defs example_lower example_lookup)

lemma example_cs_getitem:
  "XrayLibWrap_Energy_getitem (example_cs 30 e) ''ka1'' = Inr (if e < 10 then 0 else 30)"
  "XrayLibWrap_Energy_getitem (example_cs 30 e) ''kb1'' = Inr (if e < 10 then 0 else 30)"
  "XrayLibWrap_Energy_getitem (example_cs 30 e) ''la1'' = Inr 5"
  "XrayLibWrap_Energy_getitem (example_cs 30 e) ''KA1'' = Inr (if e < 10 then 0 else 30)"
  by (simp_all add: XrayLibWrap_Energy_getitem_def example_defs example_lower example_lookup)

subsection \<open>Quantity lookups\<close>

text \<open>
  C4. A subscript with a key and with the same key in upper case give the same result,
  in both classes and whatever the key: the key is lower-cased before the dict of the
  category is read.
\<close>

theorem getitem_case_insensitive:
  "XrayLibWrap_getitem w (upper key) = XrayLibWrap_getitem w key \<and>
   XrayLibWrap_Energy_getitem we (upper key) = XrayLibWrap_Energy_getitem we key \<and>
   XrayLibWrap_getitem w key = XrayLibWrap_getitem w (lower key) \<and>
   XrayLibWrap_Energy_getitem we key = XrayLibWrap_Energy_getitem we (lower key)"
  by (simp add: XrayLibWrap_getitem_def XrayLibWrap_Energy_getitem_def lower_upper lower_lower)

theorem getitem_case_insensitive_witness:
  "XrayLibWrap_getitem (example_XrayLibWrap 30 example_lines (Func2 example_LineEnergy) ''lines'')
     (upper ''ka1'') = Inr 7.5 \<and>
   XrayLibWrap_Energy_getitem (example_cs 30 12) (upper ''ka1'') = Inr 30"
  using getitem_case_insensitive
    [of "example_XrayLibWrap 30 example_lines (Func2 example_LineEnergy) ''lines''" "''ka1''"
        "example_cs 30 12"]
  by (simp add: example_getitem example_cs_getitem)

text \<open>
  C5. In a lookup built by the constructor, for any category, a subscript with a key
  whose lower-case form is not among the keys raises \<^verbatim>\<open>KeyError\<close>; no value is
  returned in its place. The same holds in the subclass, also after the incident energy
  has been set.
\<close>

theorem getitem_unknown_key:
  "(XrayLibWrap_init reg z t = Inr w \<longrightarrow> lower key \<notin> set (XrayLibWrap_iter w) \<longrightarrow>
      XrayLibWrap_getitem w key = Inl KeyError) \<and>
   (XrayLibWrap_Energy_init reg z t e = Inr we \<longrightarrow> lower key \<notin> set (XrayLibWrap_iter we) \<longrightarrow>
      XrayLibWrap_Energy_getitem we key = Inl KeyError \<and>
      XrayLibWrap_Energy_getitem (set_incident_energy we val) key = Inl KeyError)"
proof (intro conjI impI)
  assume "XrayLibWrap_init reg z t = Inr w" and "lower key \<notin> set (XrayLibWrap_iter w)"
  then have "fmlookup (xl_map w) (lower key) = None"
    by (simp add: XrayLibWrap_iter_def XrayLibWrap_init_Inr(2) not_in_sorted_iterkeys)
  then show "XrayLibWrap_getitem w key = Inl KeyError"
    by (simp add: XrayLibWrap_getitem_def)
next
  assume "XrayLibWrap_Energy_init reg z t e = Inr we"
    and "lower key \<notin> set (XrayLibWrap_iter we)"
  then have none: "fmlookup (xl_map we) (lower key) = None"
    by (simp add: XrayLibWrap_iter_def XrayLibWrap_Energy_init_Inr(2) not_in_sorted_iterkeys)
  then show "XrayLibWrap_Energy_getitem we key = Inl KeyError"
    by (simp add: XrayLibWrap_Energy_getitem_def)
  from none show "XrayLibWrap_Energy_getitem (set_incident_energy we val) key = Inl KeyError"
    by (simp add: XrayLibWrap_Energy_getitem_def set_incident_energy_def)
qed

theorem getitem_unknown_key_witness:
  "XrayLibWrap_init example_XRAYLIB_MAP 30 ''lines'' =
     Inr (example_XrayLibWrap 30 example_lines (Func2 example_LineEnergy) ''lines'') \<and>
   lower ''Kz9'' \<notin>
     set (XrayLibWrap_iter (example_XrayLibWrap 30 example_lines (Func2 example_LineEnergy) ''lines'')) \<and>
   XrayLibWrap_getitem (example_XrayLibWrap 30 example_lines (Func2 example_LineEnergy) ''lines'')
     ''Kz9'' = Inl KeyError \<and>
   XrayLibWrap_Energy_init example_XRAYLIB_MAP 30 ''cs'' 12 = Inr (example_cs 30 12) \<and>
   lower ''Kz9'' \<notin> set (XrayLibWrap_iter (example_cs 30 12)) \<and>
   XrayLibWrap_Energy_getitem (example_cs 30 12) ''Kz9'' = Inl KeyError \<and>
   XrayLibWrap_Energy_getitem (set_incident_energy (example_cs 30 12) 20) ''Kz9'' = Inl KeyError"
proof -
  have a: "XrayLibWrap_init example_XRAYLIB_MAP 30 ''lines'' =
     Inr (example_XrayLibWrap 30 example_lines (Func2 example_LineEnergy) ''lines'')"
    by (rule example_init)
  have b: "lower ''Kz9'' \<notin>
     set (XrayLibWrap_iter (example_XrayLibWrap 30 example_lines (Func2 example_LineEnergy) ''lines''))"
    by (simp add: XrayLibWrap_iter_def example_XrayLibWrap_def example_keys example_lower)
  have c: "XrayLibWrap_Energy_init example_XRAYLIB_MAP 30 ''cs'' 12 = Inr (example_cs 30 12)"
    by (rule example_init)
  have d: "lower ''Kz9'' \<notin> set (XrayLibWrap_iter (example_cs 30 12))"
    by (simp add: XrayLibWrap_iter_def example_cs_def example_keys example_lower)
  show ?thesis
    using a b c d
      getitem_unknown_key [of example_XRAYLIB_MAP 30 "''lines''"
        "example_XrayLibWrap 30 example_lines (Func2 example_LineEnergy) ''lines''" "''Kz9''"]
      getitem_unknown_key [of example_XRAYLIB_MAP 30 "''cs''" _ "''Kz9''" 12 "example_cs 30 12" 20]
    by blast
qed

text \<open>
  C6. The keys of a lookup built by the constructor are sorted in the lexicographic
  order of strings and hold no key twice, and they are the sorted keys of the dict that
  the table gives for the category: two lookups of one category have the same keys,
  whatever their elements (and, in the subclass, whatever their incident energies).
\<close>

theorem keys_sorted_distinct_per_category:
  "(XrayLibWrap_init reg z1 t = Inr w1 \<longrightarrow> XrayLibWrap_init reg z2 t = Inr w2 \<longrightarrow>
      sorted (XrayLibWrap_iter w1) \<and> distinct (XrayLibWrap_iter w1) \<and>
      XrayLibWrap_iter w1 = XrayLibWrap_iter w2 \<and>
      (\<exists>m f. reg t = Some (m, f) \<and> XrayLibWrap_iter w1 = sorted_iterkeys m)) \<and>
   (XrayLibWrap_Energy_init reg z1 t e1 = Inr we1 \<longrightarrow>
    XrayLibWrap_Energy_init reg z2 t e2 = Inr we2 \<longrightarrow>
      sorted (XrayLibWrap_iter we1) \<and> distinct (XrayLibWrap_iter we1) \<and>
      XrayLibWrap_iter we1 = XrayLibWrap_iter we2 \<and>
      (\<exists>m f. reg t = Some (m, f) \<and> XrayLibWrap_iter we1 = sorted_iterkeys m))"
proof (intro conjI impI)
  assume a: "XrayLibWrap_init reg z1 t = Inr w1" and b: "XrayLibWrap_init reg z2 t = Inr w2"
  have k1: "XrayLibWrap_iter w1 = sorted_iterkeys (xl_map w1)"
    using a by (simp add: XrayLibWrap_iter_def XrayLibWrap_init_Inr(2))
  have k2: "XrayLibWrap_iter w2 = sorted_iterkeys (xl_map w2)"
    using b by (simp add: XrayLibWrap_iter_def XrayLibWrap_init_Inr(2))
  have same: "xl_map w1 = xl_map w2"
    using XrayLibWrap_init_Inr(1) [OF a] XrayLibWrap_init_Inr(1) [OF b] by simp
  show "sorted (XrayLibWrap_iter w1)" by (simp add: k1 sorted_sorted_iterkeys)
  show "distinct (XrayLibWrap_iter w1)" by (simp add: k1 distinct_sorted_iterkeys)
  show "XrayLibWrap_iter w1 = XrayLibWrap_iter w2" by (simp add: k1 k2 same)
  show "\<exists>m f. reg t = Some (m, f) \<and> XrayLibWrap_iter w1 = sorted_iterkeys m"
    using XrayLibWrap_init_Inr(1) [OF a] k1 by blast
next
  assume a: "XrayLibWrap_Energy_init reg z1 t e1 = Inr we1"
    and b: "XrayLibWrap_Energy_init reg z2 t e2 = Inr we2"
  have k1: "XrayLibWrap_iter we1 = sorted_iterkeys (xl_map we1)"
    using a by (simp add: XrayLibWrap_iter_def XrayLibWrap_Energy_init_Inr(2))
  have k2: "XrayLibWrap_iter we2 = sorted_iterkeys (xl_map we2)"
    using b by (simp add: XrayLibWrap_iter_def XrayLibWrap_Energy_init_Inr(2))
  have same: "xl_map we1 = xl_map we2"
    using XrayLibWrap_Energy_init_Inr(1) [OF a] XrayLibWrap_Energy_init_Inr(1) [OF b] by simp
  show "sorted (XrayLibWrap_iter we1)" by (simp add: k1 sorted_sorted_iterkeys)
  show "distinct (XrayLibWrap_iter we1)" by (simp add: k1 distinct_sorted_iterkeys)
  show "XrayLibWrap_iter we1 = XrayLibWrap_iter we2" by (simp add: k1 k2 same)
  show "\<exists>m f. reg t = Some (m, f) \<and> XrayLibWrap_iter we1 = sorted_iterkeys m"
    using XrayLibWrap_Energy_init_Inr(1) [OF a] k1 by blast
qed

theorem keys_sorted_distinct_per_category_witness:
  "XrayLibWrap_init example_XRAYLIB_MAP 30 ''lines'' =
     Inr (example_XrayLibWrap 30 example_lines (Func2 example_LineEnergy) ''lines'') \<and>
   XrayLibWrap_init example_XRAYLIB_MAP 26 ''lines'' =
     Inr (example_XrayLibWrap 26 example_lines (Func2 example_LineEnergy) ''lines'') \<and>
   XrayLibWrap_iter (example_XrayLibWrap 30 example_lines (Func2 example_LineEnergy) ''lines'') =
     [''ka1'', ''kb1'', ''la1''] \<and>
   XrayLibWrap_iter (example_XrayLibWrap 30 example_lines (Func2 example_LineEnergy) ''lines'') =
     XrayLibWrap_iter (example_XrayLibWrap 26 example_lines (Func2 example_LineEnergy) ''lines'') \<and>
   XrayLibWrap_Energy_init example_XRAYLIB_MAP 30 ''cs'' 12 = Inr (example_cs 30 12) \<and>
   XrayLibWrap_Energy_init example_XRAYLIB_MAP 26 ''cs'' 9 = Inr (example_cs 26 9) \<and>
   sorted (XrayLibWrap_iter (example_cs 30 12)) \<and> distinct (XrayLibWrap_iter (example_cs 30 12)) \<and>
   XrayLibWrap_iter (example_cs 30 12) = XrayLibWrap_iter (example_cs 26 9)"
proof -
  have a: "XrayLibWrap_init example_XRAYLIB_MAP 30 ''lines'' =
     Inr (example_XrayLibWrap 30 example_lines (Func2 example_LineEnergy) ''lines'')"
    and b: "XrayLibWrap_init example_XRAYLIB_MAP 26 ''lines'' =
     Inr (example_XrayLibWrap 26 example_lines (Func2 example_LineEnergy) ''lines'')"
    and c: "XrayLibWrap_Energy_init example_XRAYLIB_MAP 30 ''cs'' 12 = Inr (example_cs 30 12)"
    and d: "XrayLibWrap_Energy_init example_XRAYLIB_MAP 26 ''cs'' 9 = Inr (example_cs 26 9)"
    by (rule example_init)+
  have k: "XrayLibWrap_iter (example_XrayLibWrap 30 example_lines (Func2 example_LineEnergy) ''lines'') =
     [''ka1'', ''kb1'', ''la1'']"
    by (simp add: XrayLibWrap_iter_def example_XrayLibWrap_def example_keys)
  show ?thesis
    using a b c d k
      keys_sorted_distinct_per_category [of example_XRAYLIB_MAP 30 "''lines''"
        "example_XrayLibWrap 30 example_lines (Func2 example_LineEnergy) ''lines''" 26
        "example_XrayLibWrap 26 example_lines (Func2 example_LineEnergy) ''lines''"]
      keys_sorted_distinct_per_category [of example_XRAYLIB_MAP 30 "''cs''" _ 26 _
        12 "example_cs 30 12" 9 "example_cs 26 9"]
    by blast
qed

text \<open>
  C7. If each subscript with a key of the lookup returns, \<^verbatim>\<open>all\<close> returns; and what
  \<^verbatim>\<open>all\<close> returns is a list of as many pairs as \<^verbatim>\<open>len\<close> counts, whose keys are the
  keys of the lookup in their order and whose values are what the subscript of the same
  object returns for the key. The same holds in the subclass.
\<close>

theorem all_pairs:
  "((\<forall>k\<in>set (XrayLibWrap_iter w). \<exists>v. XrayLibWrap_getitem w k = Inr v) \<longrightarrow>
      (\<exists>ps. XrayLibWrap_all w = Inr ps)) \<and>
   (XrayLibWrap_all w = Inr ps \<longrightarrow>
      length ps = XrayLibWrap_len w \<and> map fst ps = XrayLibWrap_iter w \<and>
      (\<forall>(k, v)\<in>set ps. XrayLibWrap_getitem w k = Inr v)) \<and>
   ((\<forall>k\<in>set (XrayLibWrap_iter we). \<exists>v. XrayLibWrap_Energy_getitem we k = Inr v) \<longrightarrow>
      (\<exists>ps. XrayLibWrap_Energy_all we = Inr ps)) \<and>
   (XrayLibWrap_Energy_all we = Inr qs \<longrightarrow>
      length qs = XrayLibWrap_len we \<and> map fst qs = XrayLibWrap_iter we \<and>
      (\<forall>(k, v)\<in>set qs. XrayLibWrap_Energy_getitem we k = Inr v))"
proof -
  have pairs: "length rs = length ks \<and> map fst rs = ks \<and> (\<forall>(k, v)\<in>set rs. g k = Inr v)"
    if ret: "Mapping_items g ks = Inr rs" for g ks rs
  proof -
    from Mapping_items_Inr [OF ret] have ks: "map fst rs = ks"
      and vs: "\<forall>i<length ks. g (ks ! i) = Inr (snd (rs ! i))" by auto
    from ks have len: "length rs = length ks" by (metis length_map)
    have "g k = Inr v" if "(k, v) \<in> set rs" for k v
    proof -
      from that obtain i where i: "i < length rs" and at: "rs ! i = (k, v)"
        by (auto simp: in_set_conv_nth)
      from i ks at have "ks ! i = k" by (metis fst_conv nth_map)
      with vs i len at show ?thesis by auto
    qed
    with ks len show ?thesis by auto
  qed
  show ?thesis
    using pairs [of "XrayLibWrap_getitem w" "XrayLibWrap_iter w" ps]
      pairs [of "XrayLibWrap_Energy_getitem we" "XrayLibWrap_iter we" qs]
      Mapping_items_returns [of "XrayLibWrap_iter w" "XrayLibWrap_getitem w"]
      Mapping_items_returns [of "XrayLibWrap_iter we" "XrayLibWrap_Energy_getitem we"]
    unfolding XrayLibWrap_all_def XrayLibWrap_Energy_all_def XrayLibWrap_len_def
      XrayLibWrap_iter_def
    by blast
qed

theorem all_pairs_witness:
  "XrayLibWrap_iter (example_XrayLibWrap 30 example_lines (Func2 example_LineEnergy) ''lines'') =
     [''ka1'', ''kb1'', ''la1''] \<and>
   XrayLibWrap_getitem
     (example_XrayLibWrap 30 example_lines (Func2 example_LineEnergy) ''lines'') ''ka1'' = Inr 7.5 \<and>
   XrayLibWrap_getitem
     (example_XrayLibWrap 30 example_lines (Func2 example_LineEnergy) ''lines'') ''kb1'' = Inr 10 \<and>
   XrayLibWrap_getitem
     (example_XrayLibWrap 30 example_lines (Func2 example_LineEnergy) ''lines'') ''la1'' = Inr 1 \<and>
   (\<exists>ps. XrayLibWrap_all
      (example_XrayLibWrap 30 example_lines (Func2 example_LineEnergy) ''lines'') = Inr ps) \<and>
   XrayLibWrap_all (example_XrayLibWrap 30 example_lines (Func2 example_LineEnergy) ''lines'') =
     Inr [(''ka1'', 7.5), (''kb1'', 10), (''la1'', 1)] \<and>
   length [(''ka1'', 7.5 :: real), (''kb1'', 10), (''la1'', 1)] =
     XrayLibWrap_len (example_XrayLibWrap 30 example_lines (Func2 example_LineEnergy) ''lines'') \<and>
   map fst [(''ka1'', 7.5 :: real), (''kb1'', 10), (''la1'', 1)] =
     XrayLibWrap_iter (example_XrayLibWrap 30 example_lines (Func2 example_LineEnergy) ''lines'') \<and>
   XrayLibWrap_len (example_XrayLibWrap 30 example_lines (Func2 example_LineEnergy) ''lines'') = 3 \<and>
   (\<exists>qs. XrayLibWrap_Energy_all (example_cs 30 12) = Inr qs) \<and>
   XrayLibWrap_Energy_all (example_cs 30 12) = Inr [(''ka1'', 30), (''kb1'', 30), (''la1'', 5)] \<and>
   length [(''ka1'', 30 :: real), (''kb1'', 30), (''la1'', 5)] = XrayLibWrap_len (example_cs 30 12) \<and>
   map fst [(''ka1'', 30 :: real), (''kb1'', 30), (''la1'', 5)] =
     XrayLibWrap_iter (example_cs 30 12) \<and>
   XrayLibWrap_Energy_getitem (example_cs 30 12) ''ka1'' = Inr 30 \<and>
   XrayLibWrap_Energy_getitem (example_cs 30 12) ''kb1'' = Inr 30 \<and>
   XrayLibWrap_Energy_getitem (example_cs 30 12) ''la1'' = Inr 5"
proof -
  let ?w = "example_XrayLibWrap 30 example_lines (Func2 example_LineEnergy) ''lines''"
  let ?we = "example_cs 30 12"
  let ?ps = "[(''ka1'', 7.5 :: real), (''kb1'', 10), (''la1'', 1)]"
  let ?qs = "[(''ka1'', 30 :: real), (''kb1'', 30), (''la1'', 5)]"
  have kw: "XrayLibWrap_iter ?w = [''ka1'', ''kb1'', ''la1'']"
    by (simp add: XrayLibWrap_iter_def example_XrayLibWrap_def example_keys)
  have kwe: "XrayLibWrap_iter ?we = [''ka1'', ''kb1'', ''la1'']"
    by (simp add: XrayLibWrap_iter_def example_cs_def example_keys)
  have h1: "\<forall>k\<in>set (XrayLibWrap_iter ?w). \<exists>v. XrayLibWrap_getitem ?w k = Inr v"
    by (auto simp: kw intro: example_getitem)
  have h2: "XrayLibWrap_all ?w = Inr ?ps"
    by (simp add: XrayLibWrap_all_def kw example_getitem)
  have h3: "\<forall>k\<in>set (XrayLibWrap_iter ?we). \<exists>v. XrayLibWrap_Energy_getitem ?we k = Inr v"
    by (auto simp: kwe intro: example_cs_getitem)
  have h4: "XrayLibWrap_Energy_all ?we = Inr ?qs"
    by (simp add: XrayLibWrap_Energy_all_def kwe example_cs_getitem)
  note ap = all_pairs [of ?w ?ps ?we ?qs]
  note r1 = ap [THEN conjunct1, THEN mp, OF h1]
  note r2 = ap [THEN conjunct2, THEN conjunct1, THEN mp, OF h2]
  note r3 = ap [THEN conjunct2, THEN conjunct2, THEN conjunct1, THEN mp, OF h3]
  note r4 = ap [THEN conjunct2, THEN conjunct2, THEN conjunct2, THEN mp, OF h4]
  from r2 have g: "XrayLibWrap_getitem ?w ''ka1'' = Inr 7.5"
    "XrayLibWrap_getitem ?w ''kb1'' = Inr 10" "XrayLibWrap_getitem ?w ''la1'' = Inr 1"
    by simp_all
  from r4 have ge: "XrayLibWrap_Energy_getitem ?we ''ka1'' = Inr 30"
    "XrayLibWrap_Energy_getitem ?we ''kb1'' = Inr 30" "XrayLibWrap_Energy_getitem ?we ''la1'' = Inr 5"
    by simp_all
  from r2 have l: "XrayLibWrap_len ?w = 3"
    by simp
  from kw g r1 h2 r2 [THEN conjunct1] r2 [THEN conjunct2, THEN conjunct1] l
    r3 h4 r4 [THEN conjunct1] r4 [THEN conjunct2, THEN conjunct1] ge
  show ?thesis
    by (intro conjI)
qed

text \<open>
  C10. Assigning to the attribute \<^verbatim>\<open>info_type\<close> of a lookup changes the result of no
  subscript, nor the keys, the length or \<^verbatim>\<open>all\<close>, in either class: the dict, the
  function and the keys of the object stay those the constructor took from the table
  for the first category.
\<close>

theorem info_type_reassigned:
  "XrayLibWrap_getitem (w\<lparr>info_type := t\<rparr>) key = XrayLibWrap_getitem w key \<and>
   XrayLibWrap_iter (w\<lparr>info_type := t\<rparr>) = XrayLibWrap_iter w \<and>
   XrayLibWrap_len (w\<lparr>info_type := t\<rparr>) = XrayLibWrap_len w \<and>
   XrayLibWrap_all (w\<lparr>info_type := t\<rparr>) = XrayLibWrap_all w \<and>
   XrayLibWrap_Energy_getitem (we\<lparr>info_type := t\<rparr>) key = XrayLibWrap_Energy_getitem we key \<and>
   XrayLibWrap_Energy_all (we\<lparr>info_type := t\<rparr>) = XrayLibWrap_Energy_all we \<and>
   (XrayLibWrap_init reg z t0 = Inr w0 \<longrightarrow>
      reg t0 = Some (xl_map (w0\<lparr>info_type := t\<rparr>), xl_func (w0\<lparr>info_type := t\<rparr>)) \<and>
      xl_keys (w0\<lparr>info_type := t\<rparr>) = sorted_iterkeys (xl_map (w0\<lparr>info_type := t\<rparr>)))"
proof -
  have g: "XrayLibWrap_getitem (w\<lparr>info_type := t\<rparr>) = XrayLibWrap_getitem w"
    by (rule ext) (simp add: XrayLibWrap_getitem_def cong: option.case_cong)
  have ge: "XrayLibWrap_Energy_getitem (we\<lparr>info_type := t\<rparr>) = XrayLibWrap_Energy_getitem we"
    by (rule ext) (simp add: XrayLibWrap_Energy_getitem_def cong: option.case_cong)
  have i: "XrayLibWrap_iter (w\<lparr>info_type := t\<rparr>) = XrayLibWrap_iter w"
    and ie: "XrayLibWrap_iter (we\<lparr>info_type := t\<rparr>) = XrayLibWrap_iter we"
    and l: "XrayLibWrap_len (w\<lparr>info_type := t\<rparr>) = XrayLibWrap_len w"
    by (simp_all add: XrayLibWrap_iter_def XrayLibWrap_len_def)
  have c: "reg t0 = Some (xl_map (w0\<lparr>info_type := t\<rparr>), xl_func (w0\<lparr>info_type := t\<rparr>)) \<and>
      xl_keys (w0\<lparr>info_type := t\<rparr>) = sorted_iterkeys (xl_map (w0\<lparr>info_type := t\<rparr>))"
    if "XrayLibWrap_init reg z t0 = Inr w0"
    using XrayLibWrap_init_Inr(1,2) [OF that] by simp
  show ?thesis
    using c by (simp add: g ge i ie l XrayLibWrap_all_def XrayLibWrap_Energy_all_def)
qed

theorem info_type_reassigned_witness:
  "XrayLibWrap_init example_XRAYLIB_MAP 30 ''lines'' =
     Inr (example_XrayLibWrap 30 example_lines (Func2 example_LineEnergy) ''lines'') \<and>
   XrayLibWrap_getitem
     ((example_XrayLibWrap 30 example_lines (Func2 example_LineEnergy) ''lines'')
        \<lparr>info_type := ''binding_e''\<rparr>) ''ka1'' = Inr 7.5 \<and>
   XrayLibWrap_iter
     ((example_XrayLibWrap 30 example_lines (Func2 example_LineEnergy) ''lines'')
        \<lparr>info_type := ''binding_e''\<rparr>) = [''ka1'', ''kb1'', ''la1''] \<and>
   xl_keys
     ((example_XrayLibWrap 30 example_lines (Func2 example_LineEnergy) ''lines'')
        \<lparr>info_type := ''binding_e''\<rparr>) = sorted_iterkeys example_lines"
proof -
  let ?w = "example_XrayLibWrap 30 example_lines (Func2 example_LineEnergy) ''lines''"
  have a: "XrayLibWrap_init example_XRAYLIB_MAP 30 ''lines'' = Inr ?w"
    by (rule example_init)
  have k: "XrayLibWrap_iter ?w = [''ka1'', ''kb1'', ''la1'']"
    by (simp add: XrayLibWrap_iter_def example_XrayLibWrap_def example_keys)
  have m: "xl_map (?w\<lparr>info_type := ''binding_e''\<rparr>) = example_lines"
    by (simp add: example_XrayLibWrap_def)
  show ?thesis
    using a k m example_getitem(1) [of "''lines''"]
      info_type_reassigned [where w = ?w and t = "''binding_e''" and key = "''ka1''"
        and reg = example_XRAYLIB_MAP and z = 30 and ?t0.0 = "''lines''" and ?w0.0 = ?w]
    by simp
qed

subsection \<open>Elements\<close>

text \<open>
  C3. Two elements are equal exactly when their atomic numbers are equal, and one is
  less than the other exactly when its atomic number is smaller. With the comparisons
  that \<^verbatim>\<open>total_ordering\<close> adds this is a total order up to that equality: it is
  transitive, irreflexive in its strict part, any two elements are comparable, and a list
  is in this order exactly when its atomic numbers are non-decreasing, as the list sorted
  by atomic number is. No comparison reads the name.
\<close>

theorem Element_order:
  "(Element_eq a b \<longleftrightarrow> Z a = Z b) \<and> (Element_lt a b \<longleftrightarrow> Z a < Z b) \<and>
   (Element_le a b \<longleftrightarrow> Z a \<le> Z b) \<and> (Element_gt a b \<longleftrightarrow> Z b < Z a) \<and>
   (Element_ge a b \<longleftrightarrow> Z b \<le> Z a) \<and>
   (Element_lt a b \<and> Element_lt b c \<longrightarrow> Element_lt a c) \<and>
   (Element_le a b \<and> Element_le b c \<longrightarrow> Element_le a c) \<and>
   (Element_le a b \<and> Element_le b a \<longrightarrow> Element_eq a b) \<and>
   (Element_le a b \<or> Element_le b a) \<and> \<not> Element_lt a a \<and>
   (Element_lt a b \<or> Element_eq a b \<or> Element_lt b a) \<and>
   (sorted_wrt Element_le xs \<longleftrightarrow> sorted (map Z xs)) \<and>
   sorted_wrt Element_le (sort_key Z xs) \<and>
   (Element_eq (a\<lparr>name := n\<rparr>) (b\<lparr>name := n'\<rparr>) \<longleftrightarrow> Element_eq a b) \<and>
   (Element_lt (a\<lparr>name := n\<rparr>) (b\<lparr>name := n'\<rparr>) \<longleftrightarrow> Element_lt a b)"
proof -
  have le: "Element_le x y \<longleftrightarrow> Z x \<le> Z y" for x y
    by (auto simp: Element_le_def Element_lt_def Element_eq_def)
  have "Element_le = (\<lambda>x y. Z x \<le> Z y)"
    by (intro ext) (rule le)
  then have sw: "sorted_wrt Element_le ys \<longleftrightarrow> sorted (map Z ys)" for ys
    by (simp add: sorted_wrt_map)
  have srt: "sorted_wrt Element_le (sort_key Z xs)"
    by (simp add: sw)
  show ?thesis
    using sw [of xs] srt
    by (auto simp: le Element_lt_def Element_eq_def Element_gt_def Element_ge_def)
qed

theorem Element_order_witness:
  "Element_lt (example_Element example_fe) (example_Element example_zn) \<and>
   \<not> Element_eq (example_Element example_fe) (example_Element example_zn) \<and>
   Element_eq (example_Element example_zn) ((example_Element example_zn)\<lparr>name := ''Fe''\<rparr>) \<and>
   Element_le (example_Element example_fe) (example_Element example_zn) \<and>
   sort_key Z [example_Element example_zn, example_Element example_fe] =
     [example_Element example_fe, example_Element example_zn] \<and>
   sorted_wrt Element_le [example_Element example_fe, example_Element example_zn]"
proof -
  let ?fe = "example_Element example_fe" and ?zn = "example_Element example_zn"
  have z: "Z ?fe = 26" "Z ?zn = 30"
    by (simp_all add: example_Element_def example_fe_def example_zn_def)
  have s: "sort_key Z [?zn, ?fe] = [?fe, ?zn]"
    by (simp add: z)
  show ?thesis
    using Element_order [of ?fe ?zn ?zn "[?zn, ?fe]" "name ?fe" "name ?zn"]
      Element_order [of ?zn ?zn ?zn "[?zn, ?fe]" "name ?zn" "''Fe''"] z s
    by simp
qed

text \<open>
  C2. Let the table hold a record under its own symbol in lower case and under its own
  atomic number, and let \<^verbatim>\<open>XRAYLIB_MAP\<close> have the four categories that the constructor
  reads. Then the constructor returns for the symbol in any letter case and for the
  atomic number, and with the same \<^verbatim>\<open>Z\<close>, the one of the record. A string is
  lower-cased before the table is read, whatever the table.
\<close>

theorem Element_init_symbol_or_number:
  assumes cats: "\<forall>t\<in>set [''lines'', ''binding_e'', ''jump'', ''yield'']. reg t \<noteq> None"
    and by_sym: "tab (Sym (lower (ed_sym d))) = Some d"
    and by_num: "tab (Num (ed_Z d)) = Some d"
    and variant: "lower s = lower (ed_sym d)"
  shows "\<exists>a b. Element_init reg tab (Sym s) = Inr a \<and>
           Element_init reg tab (Num (ed_Z d)) = Inr b \<and>
           Z a = Z b \<and> Z a = ed_Z d \<and>
           Element_init reg tab (Sym (upper s)) = Inr a \<and>
           Element_init reg tab (Sym (lower s)) = Inr a \<and>
           Element_init reg tab (Sym s) = Element_init reg tab (Sym (lower s))"
proof -
  from cats obtain m1 f1 m2 f2 m3 f3 m4 f4 where r:
    "reg ''lines'' = Some (m1, f1)" "reg ''binding_e'' = Some (m2, f2)"
    "reg ''jump'' = Some (m3, f3)" "reg ''yield'' = Some (m4, f4)"
    by auto
  let ?a = "\<lparr>name = ed_sym d, Z = ed_Z d, mass = ed_mass d, density = ed_rho d,
      emission_line = \<lparr>xl_element = ed_Z d, info_type = ''lines'', xl_map = m1, xl_func = f1,
        xl_keys = sorted_iterkeys m1\<rparr>,
      bind_energy = \<lparr>xl_element = ed_Z d, info_type = ''binding_e'', xl_map = m2, xl_func = f2,
        xl_keys = sorted_iterkeys m2\<rparr>,
      jump_factor = \<lparr>xl_element = ed_Z d, info_type = ''jump'', xl_map = m3, xl_func = f3,
        xl_keys = sorted_iterkeys m3\<rparr>,
      fluor_yield = \<lparr>xl_element = ed_Z d, info_type = ''yield'', xl_map = m4, xl_func = f4,
        xl_keys = sorted_iterkeys m4\<rparr>\<rparr>"
  have sym: "Element_init reg tab (Sym s') = Inr ?a" if "lower s' = lower (ed_sym d)" for s'
    using that by_sym r by (simp add: Element_init_def XrayLibWrap_init_def)
  have num: "Element_init reg tab (Num (ed_Z d)) = Inr ?a"
    using by_num r by (simp add: Element_init_def XrayLibWrap_init_def)
  have "Element_init reg tab (Sym s) = Inr ?a"
    and "Element_init reg tab (Sym (upper s)) = Inr ?a"
    and "Element_init reg tab (Sym (lower s)) = Inr ?a"
    using variant by (simp_all add: sym lower_upper lower_lower)
  with num show ?thesis
    by simp
qed

theorem Element_init_symbol_or_number_witness:
  "example_XRAYLIB_MAP ''lines'' \<noteq> None \<and> example_XRAYLIB_MAP ''binding_e'' \<noteq> None \<and>
   example_XRAYLIB_MAP ''jump'' \<noteq> None \<and> example_XRAYLIB_MAP ''yield'' \<noteq> None \<and>
   example_OTHER_VAL (Sym (lower (ed_sym example_zn))) = Some example_zn \<and>
   example_OTHER_VAL (Num (ed_Z example_zn)) = Some example_zn \<and>
   lower ''ZN'' = lower (ed_sym example_zn) \<and>
   (\<exists>a b. Element_init example_XRAYLIB_MAP example_OTHER_VAL (Sym ''ZN'') = Inr a \<and>
      Element_init example_XRAYLIB_MAP example_OTHER_VAL (Num (ed_Z example_zn)) = Inr b \<and>
      Z a = Z b \<and> Z a = ed_Z example_zn \<and>
      Element_init example_XRAYLIB_MAP example_OTHER_VAL (Sym (upper ''ZN'')) = Inr a \<and>
      Element_init example_XRAYLIB_MAP example_OTHER_VAL (Sym (lower ''ZN'')) = Inr a \<and>
      Element_init example_XRAYLIB_MAP example_OTHER_VAL (Sym ''ZN'') =
        Element_init example_XRAYLIB_MAP example_OTHER_VAL (Sym (lower ''ZN''))) \<and>
   Element_init example_XRAYLIB_MAP example_OTHER_VAL (Sym ''ZN'') =
     Inr (example_Element example_zn) \<and>
   Element_init example_XRAYLIB_MAP example_OTHER_VAL (Num 30) =
     Inr (example_Element example_zn) \<and>
   Z (example_Element example_zn) = 30"
proof -
  have c: "example_XRAYLIB_MAP ''lines'' \<noteq> None" "example_XRAYLIB_MAP ''binding_e'' \<noteq> None"
    "example_XRAYLIB_MAP ''jump'' \<noteq> None" "example_XRAYLIB_MAP ''yield'' \<noteq> None"
    by (simp_all add: example_XRAYLIB_MAP_def)
  then have h1: "\<forall>t\<in>set [''lines'', ''binding_e'', ''jump'', ''yield'']. example_XRAYLIB_MAP t \<noteq> None"
    by simp
  have sy: "ed_sym example_zn = ''Zn''" and zz: "ed_Z example_zn = 30"
    by (simp_all add: example_zn_def)
  have h2: "example_OTHER_VAL (Sym (lower (ed_sym example_zn))) = Some example_zn"
    by (simp add: sy example_lower example_OTHER_VAL_def)
  have h3: "example_OTHER_VAL (Num (ed_Z example_zn)) = Some example_zn"
    by (simp add: zz example_OTHER_VAL_def)
  have h4: "lower ''ZN'' = lower (ed_sym example_zn)"
    by (simp add: sy example_lower)
  have e: "Element_init example_XRAYLIB_MAP example_OTHER_VAL (Sym ''ZN'') =
      Inr (example_Element example_zn)"
    "Element_init example_XRAYLIB_MAP example_OTHER_VAL (Num 30) = Inr (example_Element example_zn)"
    "Z (example_Element example_zn) = 30"
    by (simp_all add: Element_init_def example_lower example_OTHER_VAL_def example_XRAYLIB_MAP_def
        XrayLibWrap_init_def example_Element_def example_XrayLibWrap_def zz)
  from c h2 h3 h4 Element_init_symbol_or_number [OF h1 h2 h3 h4] e show ?thesis
    by (intro conjI)
qed

subsection \<open>The loop of \<^verbatim>\<open>line_near\<close>\<close>


text \<open>What the loop does to \<open>out_dict\<close> when every subscript returns.\<close>

lemma line_near_loop_fold:
  assumes "Element_cs reg self ie = Inr c"
    and "\<forall>k\<in>set ks. XrayLibWrap_getitem (emission_line self) k = Inr (lv k) \<and>
           XrayLibWrap_Energy_getitem c k = Inr (xv k)"
  shows "line_near_loop reg self energy delta ie ks d =
     Inr (fold (\<lambda>k d. if xv k \<noteq> 0 \<and> \<bar>lv k - energy\<bar> < delta then dict_setitem d k (lv k) else d)
            ks d)"
  using assms by (induction ks arbitrary: d) auto

text \<open>When the loop returns, every subscript it made has returned.\<close>

lemma line_near_loop_Inr:
  assumes "line_near_loop reg self energy delta ie ks d = Inr out"
  shows "\<forall>k\<in>set ks. \<exists>v c x. XrayLibWrap_getitem (emission_line self) k = Inr v \<and>
           Element_cs reg self ie = Inr c \<and> XrayLibWrap_Energy_getitem c k = Inr x"
  using assms
proof (induction ks arbitrary: d)
  case Nil
  then show ?case by simp
next
  case (Cons k ks)
  from Cons.prems obtain v c x where here:
    "XrayLibWrap_getitem (emission_line self) k = Inr v" "Element_cs reg self ie = Inr c"
    "XrayLibWrap_Energy_getitem c k = Inr x"
    by (auto split: sum.splits)
  with Cons.prems obtain d' where "line_near_loop reg self energy delta ie ks d' = Inr out"
    by (auto split: if_splits)
  from Cons.IH [OF this] here show ?case
    by auto
qed

text \<open>The dict that the loop builds, as a map and as a list of pairs.\<close>

lemma map_of_fold_setitem:
  "map_of (fold (\<lambda>k d. if sel k then dict_setitem d k (lv k) else d) ks d) k' =
     (if k' \<in> set ks \<and> sel k' then Some (lv k') else map_of d k')"
  by (induction ks arbitrary: d) (auto simp: dict_setitem_def update_conv')



text \<open>
  The result of \<^verbatim>\<open>line_near\<close>, when it returns: \<open>lv\<close> and \<open>xv\<close> are the line energy
  and the cross section of each key.
\<close>

lemma line_near_Inr:
  assumes ret: "line_near reg self energy delta ie = Inr out"
  obtains lv xv c where
    "\<forall>k\<in>set (XrayLibWrap_iter (emission_line self)).
       XrayLibWrap_getitem (emission_line self) k = Inr (lv k) \<and>
       Element_cs reg self ie = Inr c \<and> XrayLibWrap_Energy_getitem c k = Inr (xv k)"
    and "out = fold (\<lambda>k d. if xv k \<noteq> 0 \<and> \<bar>lv k - energy\<bar> < delta then dict_setitem d k (lv k) else d)
       (XrayLibWrap_iter (emission_line self)) []"
proof (cases "XrayLibWrap_iter (emission_line self) = []")
  case True
  with ret have "out = []"
    by (simp add: line_near_def)
  with True that [of "\<lambda>k. 0" undefined "\<lambda>k. 0"] show ?thesis
    by simp
next
  case False
  let ?ks = "XrayLibWrap_iter (emission_line self)"
  from ret have all: "\<forall>k\<in>set ?ks. \<exists>v c x. XrayLibWrap_getitem (emission_line self) k = Inr v \<and>
      Element_cs reg self ie = Inr c \<and> XrayLibWrap_Energy_getitem c k = Inr x"
    unfolding line_near_def by (rule line_near_loop_Inr)
  from False obtain k0 where "k0 \<in> set ?ks"
    by (cases ?ks) auto
  with all obtain c where c: "Element_cs reg self ie = Inr c"
    by blast
  define lv where "lv k = projr (XrayLibWrap_getitem (emission_line self) k)" for k
  define xv where "xv k = projr (XrayLibWrap_Energy_getitem c k)" for k
  from all c have ok: "\<forall>k\<in>set ?ks. XrayLibWrap_getitem (emission_line self) k = Inr (lv k) \<and>
      XrayLibWrap_Energy_getitem c k = Inr (xv k)"
    by (auto simp: lv_def xv_def)
  from line_near_loop_fold [OF c ok, of energy delta "[]"] ret
  have "out = fold (\<lambda>k d. if xv k \<noteq> 0 \<and> \<bar>lv k - energy\<bar> < delta then dict_setitem d k (lv k) else d)
       ?ks []"
    by (simp add: line_near_def)
  with ok c that [of lv c xv] show ?thesis
    by simp
qed

lemma example_line_near:
  "line_near example_XRAYLIB_MAP (example_Element example_zn) 10 2.5 ie =
     Inr (if ie < 10 then [] else [(''kb1'', 10)])"
  by (simp add: line_near_def XrayLibWrap_iter_def example_Element_def example_XrayLibWrap_def
      example_keys XrayLibWrap_getitem_def example_lower example_lookup example_LineEnergy_def
      example_zn_def Element_cs_def XrayLibWrap_Energy_init_def XrayLibWrap_init_def
      example_XRAYLIB_MAP_def XrayLibWrap_Energy_getitem_def example_CS_FluorLine_def
      dict_setitem_def)

lemma example_Element_zn:
  "emission_line (example_Element example_zn) =
     example_XrayLibWrap 30 example_lines (Func2 example_LineEnergy) ''lines''"
  "Element_cs example_XRAYLIB_MAP (example_Element example_zn) ie = Inr (example_cs 30 ie)"
  "XrayLibWrap_iter (emission_line (example_Element example_zn)) = [''ka1'', ''kb1'', ''la1'']"
  by (simp_all add: example_Element_def example_zn_def Element_cs_def example_init
      XrayLibWrap_iter_def example_XrayLibWrap_def example_keys)

text \<open>
  C1. When \<^verbatim>\<open>line_near\<close> returns, then for each key of \<^verbatim>\<open>self.emission_line\<close> the
  line energy \<open>v\<close> and the cross section \<open>x\<close> at the incident energy have been computed,
  and the result maps the key to \<open>v\<close> exactly when \<open>x\<close> is not zero and
  \<open>\<bar>v - energy\<bar> < delta_e\<close>; otherwise the key is absent. So a key with a zero cross
  section is absent even if \<open>v = energy\<close>, and a key with \<open>\<bar>v - energy\<bar> = delta_e\<close> is
  absent. The result has no other keys. And \<^verbatim>\<open>line_near\<close> does return when the cross
  section lookup can be built and the two subscripts return for each key.
\<close>

theorem line_near_contains:
  "(line_near reg self energy delta ie = Inr out \<longrightarrow>
      (\<forall>k\<in>set (XrayLibWrap_iter (emission_line self)).
         \<exists>v c x. XrayLibWrap_getitem (emission_line self) k = Inr v \<and>
           Element_cs reg self ie = Inr c \<and> XrayLibWrap_Energy_getitem c k = Inr x \<and>
           (map_of out k = Some v \<longleftrightarrow> x \<noteq> 0 \<and> \<bar>v - energy\<bar> < delta) \<and>
           (k \<in> fst ` set out \<longleftrightarrow> x \<noteq> 0 \<and> \<bar>v - energy\<bar> < delta) \<and>
           (x = 0 \<and> v = energy \<longrightarrow> k \<notin> fst ` set out) \<and>
           (\<bar>v - energy\<bar> = delta \<longrightarrow> k \<notin> fst ` set out)) \<and>
      fst ` set out \<subseteq> set (XrayLibWrap_iter (emission_line self))) \<and>
   (Element_cs reg self ie = Inr c' \<and>
      (\<forall>k\<in>set (XrayLibWrap_iter (emission_line self)).
         (\<exists>v. XrayLibWrap_getitem (emission_line self) k = Inr v) \<and>
         (\<exists>x. XrayLibWrap_Energy_getitem c' k = Inr x)) \<longrightarrow>
      (\<exists>r. line_near reg self energy delta ie = Inr r))"
proof (intro conjI impI)
  let ?ks = "XrayLibWrap_iter (emission_line self)"
  assume ret: "line_near reg self energy delta ie = Inr out"
  then obtain lv xv c where ok: "\<forall>k\<in>set ?ks.
       XrayLibWrap_getitem (emission_line self) k = Inr (lv k) \<and>
       Element_cs reg self ie = Inr c \<and> XrayLibWrap_Energy_getitem c k = Inr (xv k)"
    and out: "out = fold (\<lambda>k d. if xv k \<noteq> 0 \<and> \<bar>lv k - energy\<bar> < delta
                            then dict_setitem d k (lv k) else d) ?ks []"
    by (rule line_near_Inr)
  have m: "map_of out k = (if k \<in> set ?ks \<and> xv k \<noteq> 0 \<and> \<bar>lv k - energy\<bar> < delta
                           then Some (lv k) else None)" for k
    unfolding out by (simp add: map_of_fold_setitem)
  have dom: "k \<in> fst ` set out \<longleftrightarrow> k \<in> set ?ks \<and> xv k \<noteq> 0 \<and> \<bar>lv k - energy\<bar> < delta" for k
    using m [of k] map_of_eq_None_iff [of out k] by (auto split: if_splits)
  show "fst ` set out \<subseteq> set ?ks"
    using dom by blast
  show "\<forall>k\<in>set ?ks.
         \<exists>v c x. XrayLibWrap_getitem (emission_line self) k = Inr v \<and>
           Element_cs reg self ie = Inr c \<and> XrayLibWrap_Energy_getitem c k = Inr x \<and>
           (map_of out k = Some v \<longleftrightarrow> x \<noteq> 0 \<and> \<bar>v - energy\<bar> < delta) \<and>
           (k \<in> fst ` set out \<longleftrightarrow> x \<noteq> 0 \<and> \<bar>v - energy\<bar> < delta) \<and>
           (x = 0 \<and> v = energy \<longrightarrow> k \<notin> fst ` set out) \<and>
           (\<bar>v - energy\<bar> = delta \<longrightarrow> k \<notin> fst ` set out)"
  proof
    fix k assume k: "k \<in> set ?ks"
    with ok have here: "XrayLibWrap_getitem (emission_line self) k = Inr (lv k)"
      "Element_cs reg self ie = Inr c" "XrayLibWrap_Energy_getitem c k = Inr (xv k)"
      by auto
    have "map_of out k = Some (lv k) \<longleftrightarrow> xv k \<noteq> 0 \<and> \<bar>lv k - energy\<bar> < delta"
      using m [of k] k by simp
    moreover have "k \<in> fst ` set out \<longleftrightarrow> xv k \<noteq> 0 \<and> \<bar>lv k - energy\<bar> < delta"
      using dom [of k] k by simp
    ultimately show "\<exists>v c x. XrayLibWrap_getitem (emission_line self) k = Inr v \<and>
           Element_cs reg self ie = Inr c \<and> XrayLibWrap_Energy_getitem c k = Inr x \<and>
           (map_of out k = Some v \<longleftrightarrow> x \<noteq> 0 \<and> \<bar>v - energy\<bar> < delta) \<and>
           (k \<in> fst ` set out \<longleftrightarrow> x \<noteq> 0 \<and> \<bar>v - energy\<bar> < delta) \<and>
           (x = 0 \<and> v = energy \<longrightarrow> k \<notin> fst ` set out) \<and>
           (\<bar>v - energy\<bar> = delta \<longrightarrow> k \<notin> fst ` set out)"
      using here by (intro exI [of _ "lv k"] exI [of _ c] exI [of _ "xv k"]) simp
  qed
next
  let ?ks = "XrayLibWrap_iter (emission_line self)"
  assume a: "Element_cs reg self ie = Inr c' \<and>
      (\<forall>k\<in>set ?ks. (\<exists>v. XrayLibWrap_getitem (emission_line self) k = Inr v) \<and>
         (\<exists>x. XrayLibWrap_Energy_getitem c' k = Inr x))"
  define lv where "lv k = projr (XrayLibWrap_getitem (emission_line self) k)" for k
  define xv where "xv k = projr (XrayLibWrap_Energy_getitem c' k)" for k
  from a have cs: "Element_cs reg self ie = Inr c'"
    and ok: "\<forall>k\<in>set ?ks. XrayLibWrap_getitem (emission_line self) k = Inr (lv k) \<and>
      XrayLibWrap_Energy_getitem c' k = Inr (xv k)"
    by (auto simp: lv_def xv_def)
  from line_near_loop_fold [OF cs ok, of energy delta "[]"]
  show "\<exists>r. line_near reg self energy delta ie = Inr r"
    by (simp add: line_near_def)
qed

theorem line_near_contains_witness:
  "line_near example_XRAYLIB_MAP (example_Element example_zn) 10 2.5 12 = Inr [(''kb1'', 10)] \<and>
   (\<exists>v c x. XrayLibWrap_getitem (emission_line (example_Element example_zn)) ''kb1'' = Inr v \<and>
      Element_cs example_XRAYLIB_MAP (example_Element example_zn) 12 = Inr c \<and>
      XrayLibWrap_Energy_getitem c ''kb1'' = Inr x \<and>
      (map_of [(''kb1'', 10)] ''kb1'' = Some v \<longleftrightarrow> x \<noteq> 0 \<and> \<bar>v - 10\<bar> < 2.5) \<and>
      (''kb1'' \<in> fst ` set [(''kb1'', 10 :: real)] \<longleftrightarrow> x \<noteq> 0 \<and> \<bar>v - 10\<bar> < 2.5) \<and>
      (x = 0 \<and> v = 10 \<longrightarrow> ''kb1'' \<notin> fst ` set [(''kb1'', 10 :: real)]) \<and>
      (\<bar>v - 10\<bar> = 2.5 \<longrightarrow> ''kb1'' \<notin> fst ` set [(''kb1'', 10 :: real)])) \<and>
   (\<exists>v c x. XrayLibWrap_getitem (emission_line (example_Element example_zn)) ''ka1'' = Inr v \<and>
      Element_cs example_XRAYLIB_MAP (example_Element example_zn) 12 = Inr c \<and>
      XrayLibWrap_Energy_getitem c ''ka1'' = Inr x \<and>
      (map_of [(''kb1'', 10)] ''ka1'' = Some v \<longleftrightarrow> x \<noteq> 0 \<and> \<bar>v - 10\<bar> < 2.5) \<and>
      (''ka1'' \<in> fst ` set [(''kb1'', 10 :: real)] \<longleftrightarrow> x \<noteq> 0 \<and> \<bar>v - 10\<bar> < 2.5) \<and>
      (x = 0 \<and> v = 10 \<longrightarrow> ''ka1'' \<notin> fst ` set [(''kb1'', 10 :: real)]) \<and>
      (\<bar>v - 10\<bar> = 2.5 \<longrightarrow> ''ka1'' \<notin> fst ` set [(''kb1'', 10 :: real)])) \<and>
   fst ` set [(''kb1'', 10 :: real)] \<subseteq>
     set (XrayLibWrap_iter (emission_line (example_Element example_zn))) \<and>
   Element_cs example_XRAYLIB_MAP (example_Element example_zn) 12 = Inr (example_cs 30 12) \<and>
   XrayLibWrap_iter (emission_line (example_Element example_zn)) = [''ka1'', ''kb1'', ''la1''] \<and>
   (\<exists>r. line_near example_XRAYLIB_MAP (example_Element example_zn) 10 2.5 12 = Inr r) \<and>
   XrayLibWrap_getitem (emission_line (example_Element example_zn)) ''ka1'' = Inr 7.5 \<and>
   XrayLibWrap_Energy_getitem (example_cs 30 12) ''ka1'' = Inr 30 \<and>
   XrayLibWrap_getitem (emission_line (example_Element example_zn)) ''kb1'' = Inr 10 \<and>
   XrayLibWrap_Energy_getitem (example_cs 30 12) ''kb1'' = Inr 30 \<and>
   XrayLibWrap_Energy_getitem (example_cs 30 9) ''kb1'' = Inr 0 \<and>
   line_near example_XRAYLIB_MAP (example_Element example_zn) 10 2.5 9 = Inr []"
proof -
  let ?zn = "example_Element example_zn"
  let ?out = "[(''kb1'', 10 :: real)]"
  note t = line_near_contains [of example_XRAYLIB_MAP ?zn 10 "2.5" 12 ?out "example_cs 30 12"]
  have h1: "line_near example_XRAYLIB_MAP ?zn 10 2.5 12 = Inr ?out"
    using example_line_near [of 12] by simp
  have h2: "Element_cs example_XRAYLIB_MAP ?zn 12 = Inr (example_cs 30 12)"
    by (rule example_Element_zn)
  have ks: "XrayLibWrap_iter (emission_line ?zn) = [''ka1'', ''kb1'', ''la1'']"
    by (rule example_Element_zn)
  have h3: "\<forall>k\<in>set (XrayLibWrap_iter (emission_line ?zn)).
      (\<exists>v. XrayLibWrap_getitem (emission_line ?zn) k = Inr v) \<and>
      (\<exists>x. XrayLibWrap_Energy_getitem (example_cs 30 12) k = Inr x)"
    unfolding example_Element_zn(3)
    by (auto simp: example_Element_zn(1) intro: example_getitem example_cs_getitem)
  note r1 = t [THEN conjunct1, THEN mp, OF h1]
  note r2 = t [THEN conjunct2, THEN mp, OF conjI [OF h2 h3]]
  have kb: "''kb1'' \<in> set (XrayLibWrap_iter (emission_line ?zn))"
    and ka: "''ka1'' \<in> set (XrayLibWrap_iter (emission_line ?zn))"
    by (simp_all add: ks)
  note at_kb = r1 [THEN conjunct1, THEN bspec, OF kb]
  note at_ka = r1 [THEN conjunct1, THEN bspec, OF ka]
  note sub = r1 [THEN conjunct2]
  have e: "XrayLibWrap_getitem (emission_line ?zn) ''ka1'' = Inr 7.5"
    "XrayLibWrap_Energy_getitem (example_cs 30 12) ''ka1'' = Inr 30"
    "XrayLibWrap_getitem (emission_line ?zn) ''kb1'' = Inr 10"
    "XrayLibWrap_Energy_getitem (example_cs 30 12) ''kb1'' = Inr 30"
    "XrayLibWrap_Energy_getitem (example_cs 30 9) ''kb1'' = Inr 0"
    "line_near example_XRAYLIB_MAP ?zn 10 2.5 9 = Inr []"
    using example_line_near [of 9]
    by (simp_all add: example_Element_zn example_getitem example_cs_getitem)
  from h1 at_kb at_ka sub h2 ks r2 e show ?thesis
    by (intro conjI)
qed






subsection \<open>The incident energy\<close>

lemma subscript_assign_same:
  "r < length h \<Longrightarrow>
     subscript (assign_incident_energy h r val) r key =
       Some (XrayLibWrap_Energy_getitem (set_incident_energy (h ! r) val) key)"
  by (simp add: subscript_def assign_incident_energy_def)

lemma subscript_assign_other:
  "r \<noteq> r' \<Longrightarrow> subscript (assign_incident_energy h r val) r' key = subscript h r' key"
  by (simp add: subscript_def assign_incident_energy_def)

lemma getitem_set_incident_energy:
  "XrayLibWrap_Energy_getitem (set_incident_energy we val) key =
     (case fmlookup (xl_map we) (lower key) of
        None \<Rightarrow> Inl KeyError
      | Some code \<Rightarrow> call3 (xl_func we) (xl_element we) code val)"
  by (simp add: XrayLibWrap_Energy_getitem_def set_incident_energy_def cong: option.case_cong)

lemma set_incident_energy_twice:
  "set_incident_energy (set_incident_energy we E1) E2 = set_incident_energy we E2"
  by (simp add: set_incident_energy_def)

text \<open>
  C8. After the incident energy of a lookup has been set to \<open>E1\<close> and then to \<open>E2\<close>, a
  subscript calls the function of the category with \<open>E2\<close>. An assignment to the
  incident energy of one object changes the result of no subscript of another object;
  two calls of \<^verbatim>\<open>cs\<close> give two objects, each with the incident energy it was built
  with, whatever is then assigned to the other.
\<close>

theorem incident_energy_set_and_separate:
  "XrayLibWrap_Energy_getitem (set_incident_energy (set_incident_energy we E1) E2) key =
     (case fmlookup (xl_map we) (lower key) of
        None \<Rightarrow> Inl KeyError
      | Some code \<Rightarrow> call3 (xl_func we) (xl_element we) code E2) \<and>
   (r < length h \<longrightarrow>
      subscript (assign_incident_energy (assign_incident_energy h r E1) r E2) r key =
        Some (case fmlookup (xl_map (h ! r)) (lower key) of
                None \<Rightarrow> Inl KeyError
              | Some code \<Rightarrow> call3 (xl_func (h ! r)) (xl_element (h ! r)) code E2)) \<and>
   (r \<noteq> r' \<longrightarrow> subscript (assign_incident_energy h r val) r' key = subscript h r' key) \<and>
   (new_cs reg self Ea h = Inr (a, h1) \<longrightarrow> new_cs reg self Eb h1 = Inr (b, h2) \<longrightarrow>
      a \<noteq> b \<and>
      subscript (assign_incident_energy h2 a val) b key = subscript h2 b key \<and>
      subscript (assign_incident_energy h2 b val) a key = subscript h2 a key \<and>
      (\<exists>ca cb. Element_cs reg self Ea = Inr ca \<and> Element_cs reg self Eb = Inr cb \<and>
         subscript (assign_incident_energy h2 a val) b key =
           Some (XrayLibWrap_Energy_getitem cb key) \<and>
         subscript (assign_incident_energy h2 b val) a key =
           Some (XrayLibWrap_Energy_getitem ca key)))"
proof (intro conjI impI)
  show "XrayLibWrap_Energy_getitem (set_incident_energy (set_incident_energy we E1) E2) key =
     (case fmlookup (xl_map we) (lower key) of
        None \<Rightarrow> Inl KeyError
      | Some code \<Rightarrow> call3 (xl_func we) (xl_element we) code E2)"
    by (simp only: set_incident_energy_twice getitem_set_incident_energy)
next
  assume r: "r < length h"
  then have "subscript (assign_incident_energy (assign_incident_energy h r E1) r E2) r key =
      Some (XrayLibWrap_Energy_getitem
              (set_incident_energy (set_incident_energy (h ! r) E1) E2) key)"
    by (simp add: subscript_def assign_incident_energy_def)
  then show "subscript (assign_incident_energy (assign_incident_energy h r E1) r E2) r key =
        Some (case fmlookup (xl_map (h ! r)) (lower key) of
                None \<Rightarrow> Inl KeyError
              | Some code \<Rightarrow> call3 (xl_func (h ! r)) (xl_element (h ! r)) code E2)"
    by (simp only: set_incident_energy_twice getitem_set_incident_energy)
next
  assume "r \<noteq> r'"
  then show "subscript (assign_incident_energy h r val) r' key = subscript h r' key"
    by (rule subscript_assign_other)
next
  assume na: "new_cs reg self Ea h = Inr (a, h1)" and nb: "new_cs reg self Eb h1 = Inr (b, h2)"
  from na obtain ca where ca: "Element_cs reg self Ea = Inr ca" "a = length h" "h1 = h @ [ca]"
    by (auto simp: new_cs_def split: sum.splits)
  from nb obtain cb where cb: "Element_cs reg self Eb = Inr cb" "b = length h1" "h2 = h1 @ [cb]"
    by (auto simp: new_cs_def split: sum.splits)
  from ca cb show ab: "a \<noteq> b"
    by simp
  then show o1: "subscript (assign_incident_energy h2 a val) b key = subscript h2 b key"
    by (rule subscript_assign_other)
  from ab have "b \<noteq> a" by simp
  then show o2: "subscript (assign_incident_energy h2 b val) a key = subscript h2 a key"
    by (rule subscript_assign_other)
  have "subscript h2 b key = Some (XrayLibWrap_Energy_getitem cb key)"
    using cb by (simp add: subscript_def)
  moreover have "subscript h2 a key = Some (XrayLibWrap_Energy_getitem ca key)"
    using ca cb by (simp add: subscript_def nth_append)
  ultimately show "\<exists>ca cb. Element_cs reg self Ea = Inr ca \<and> Element_cs reg self Eb = Inr cb \<and>
         subscript (assign_incident_energy h2 a val) b key =
           Some (XrayLibWrap_Energy_getitem cb key) \<and>
         subscript (assign_incident_energy h2 b val) a key =
           Some (XrayLibWrap_Energy_getitem ca key)"
    using ca(1) cb(1) o1 o2 by simp
qed

theorem incident_energy_set_and_separate_witness:
  "XrayLibWrap_Energy_getitem (set_incident_energy (set_incident_energy (example_cs 30 12) 9) 12)
     ''ka1'' = Inr 30 \<and>
   XrayLibWrap_Energy_getitem (set_incident_energy (example_cs 30 12) 9) ''ka1'' = Inr 0 \<and>
   new_cs example_XRAYLIB_MAP (example_Element example_zn) 12 [] = Inr (0, [example_cs 30 12]) \<and>
   new_cs example_XRAYLIB_MAP (example_Element example_zn) 9 [example_cs 30 12] =
     Inr (1, [example_cs 30 12, example_cs 30 9]) \<and>
   (0 :: nat) \<noteq> 1 \<and>
   subscript [example_cs 30 12, example_cs 30 9] 0 ''ka1'' = Some (Inr 30) \<and>
   subscript [example_cs 30 12, example_cs 30 9] 1 ''ka1'' = Some (Inr 0) \<and>
   subscript (assign_incident_energy [example_cs 30 12, example_cs 30 9] 0 9) 0 ''ka1'' =
     Some (Inr 0) \<and>
   subscript (assign_incident_energy [example_cs 30 12, example_cs 30 9] 0 20) 1 ''ka1'' =
     Some (Inr 0) \<and>
   subscript (assign_incident_energy [example_cs 30 12, example_cs 30 9] 1 20) 0 ''ka1'' =
     Some (Inr 30) \<and>
   subscript (assign_incident_energy [example_cs 30 12, example_cs 30 9] 1 20) 1 ''ka1'' =
     Some (Inr 30) \<and>
   (0 :: nat) < length [example_cs 30 12, example_cs 30 9] \<and>
   subscript (assign_incident_energy
       (assign_incident_energy [example_cs 30 12, example_cs 30 9] 0 9) 0 20) 0 ''ka1'' =
     Some (Inr 30)"
proof -
  let ?zn = "example_Element example_zn"
  let ?h = "[example_cs 30 12, example_cs 30 9]"
  have n1: "new_cs example_XRAYLIB_MAP ?zn 12 [] = Inr (0, [example_cs 30 12])"
    and n2: "new_cs example_XRAYLIB_MAP ?zn 9 [example_cs 30 12] = Inr (1, ?h)"
    by (simp_all add: new_cs_def example_Element_zn(2))
  have len: "(0 :: nat) < length ?h"
    by simp
  have lk: "fmlookup (xl_map (example_cs 30 e)) (lower ''ka1'') = Some (- 3)"
    "xl_func (example_cs 30 e) = Func3 example_CS_FluorLine"
    "xl_element (example_cs 30 e) = 30" for e
    by (simp_all add: example_cs_def example_lower example_lookup)
  have s0: "subscript ?h 0 ''ka1'' = Some (Inr 30)"
    and s1: "subscript ?h 1 ''ka1'' = Some (Inr 0)"
    by (simp_all add: subscript_def example_cs_getitem)
  have s9: "subscript (assign_incident_energy ?h 0 9) 0 ''ka1'' = Some (Inr 0)"
    and s20: "subscript (assign_incident_energy ?h 1 20) 1 ''ka1'' = Some (Inr 30)"
    by (simp_all add: subscript_assign_same getitem_set_incident_energy lk example_CS_FluorLine_def)
  note t = incident_energy_set_and_separate
    [where we = "example_cs 30 12" and ?E1.0 = 9 and ?E2.0 = 12 and key = "''ka1''"
      and reg = example_XRAYLIB_MAP and self = ?zn and Ea = 12 and h = "[]" and a = 0
      and ?h1.0 = "[example_cs 30 12]" and Eb = 9 and b = 1 and ?h2.0 = ?h and val = 20]
  note sep = t [THEN conjunct2, THEN conjunct2, THEN conjunct2, THEN mp, THEN mp, OF n1 n2]
  have a: "XrayLibWrap_Energy_getitem
      (set_incident_energy (set_incident_energy (example_cs 30 12) 9) 12) ''ka1'' = Inr 30"
    using t [THEN conjunct1] by (simp add: lk example_CS_FluorLine_def)
  have b: "XrayLibWrap_Energy_getitem (set_incident_energy (example_cs 30 12) 9) ''ka1'' = Inr 0"
    by (simp add: getitem_set_incident_energy lk example_CS_FluorLine_def)
  have ne: "(0 :: nat) \<noteq> 1"
    using sep [THEN conjunct1] .
  have c1: "subscript (assign_incident_energy ?h 0 20) 1 ''ka1'' = Some (Inr 0)"
    using sep [THEN conjunct2, THEN conjunct1] s1 by simp
  have c2: "subscript (assign_incident_energy ?h 1 20) 0 ''ka1'' = Some (Inr 30)"
    using sep [THEN conjunct2, THEN conjunct2, THEN conjunct1] s0 by simp
  have d: "subscript (assign_incident_energy (assign_incident_energy ?h 0 9) 0 20) 0 ''ka1'' =
      Some (Inr 30)"
    using incident_energy_set_and_separate
      [where r = 0 and h = ?h and ?E1.0 = 9 and ?E2.0 = 20 and key = "''ka1''",
        THEN conjunct2, THEN conjunct1, THEN mp, OF len]
    by (simp add: lk example_CS_FluorLine_def)
  from a b n1 n2 ne s0 s1 s9 c1 c2 s20 len d show ?thesis
    by (intro conjI)
qed

end
